theory Spec2Isabelle
  imports Main
begin

section \<open>Data model (src/src/index.ts, lines 26-90)\<close>

text \<open>
  The TypeScript interfaces become records. A field whose source name is a HOL constant
  or is shared by two interfaces (\<open>id\<close>, \<open>name\<close>, \<open>value\<close>, \<open>to\<close>) carries the
  interface as a prefix. An optional member (\<open>field?: T\<close>) is an \<open>option\<close>, with
  \<open>None\<close> for \<open>undefined\<close>. JavaScript numbers that the code only passes along or
  tests for truthiness are integers.
\<close>

datatype rpc_endpoint = Url string | LIT_RPC_CHRONICLE_YELLOWSTONE

record NativeCurrency =
  currency_name :: string
  currency_symbol :: string
  currency_decimals :: int

record ChainConfig =
  config_name :: string
  chainId :: int
  rpcUrl :: rpc_endpoint
  nativeCurrency :: NativeCurrency
  blockExplorer :: "string option"

record UserData =
  user_id :: string
  user_name :: string
  user_email :: string

record PKPData =
  tokenId :: string
  publicKey :: string
  ethAddress :: string

record UserPKPData =
  user :: UserData
  pkp :: PKPData
  createdAt :: string

datatype message_type = Plain | Eip191 | Eip712

record SignMessageOptions =
  opt_chain :: "string option"
  opt_messageType :: "message_type option"

record EIP712Domain =
  domain_name :: string
  domain_version :: string
  domain_chainId :: int
  verifyingContract :: string
  salt :: "string option"

type_synonym EIP712Types = "(string \<times> (string \<times> string) list) list"

text \<open>A value of type \<open>any\<close> (the message of a typed-data signature) is a JSON value.\<close>

datatype json =
    JNull
  | JBool bool
  | JNumber int
  | JString string
  | JArray "json list"
  | JObject "(string \<times> json) list"

record TransactionRequest =
  tx_to :: string
  tx_value :: "string option"
  tx_gasLimit :: "int option"
  tx_gasPrice :: "string option"
  tx_data :: "string option"

text \<open>
  Every \<open>throw\<close> of the class is a constructor of \<open>js_error\<close>; \<open>TypeError\<close> is the
  runtime's own error on reading a property of \<open>undefined\<close>, and \<open>Upstream\<close> is any
  error thrown by the Lit network's client, by ethers or by the file system.
\<close>

datatype js_error =
    NotInitialized
  | NoPKPFound string
  | UnsupportedChain string "string list"
  | UnsupportedMessageType string
  | TypeError
  | Upstream string

definition message_type_name :: "message_type \<Rightarrow> string" where
  "message_type_name t = (case t of Plain \<Rightarrow> ''plain'' | Eip191 \<Rightarrow> ''eip191'' | Eip712 \<Rightarrow> ''eip712'')"

definition default_param :: "'a option \<Rightarrow> 'a \<Rightarrow> 'a" where
  "default_param arg dflt = (case arg of None \<Rightarrow> dflt | Some v \<Rightarrow> v)"

section \<open>Chain registry (lines 96-124 and 186-200)\<close>

text \<open>
  \<open>SUPPORTED_CHAINS\<close> is an object literal; its entries are kept in source order, which
  is the order of \<open>Object.keys\<close>.
\<close>

definition SUPPORTED_CHAINS :: "(string \<times> ChainConfig) list" where
  "SUPPORTED_CHAINS =
    [(''ethereum'',
        \<lparr>config_name = ''Ethereum Mainnet'', chainId = 1,
         rpcUrl = Url ''https://eth.llamarpc.com'',
         nativeCurrency = \<lparr>currency_name = ''Ether'', currency_symbol = ''ETH'', currency_decimals = 18\<rparr>,
         blockExplorer = Some ''https://etherscan.io''\<rparr>),
     (''sepolia'',
        \<lparr>config_name = ''Sepolia Testnet'', chainId = 11155111,
         rpcUrl = Url ''https://sepolia.infura.io/v3/YOUR_KEY'',
         nativeCurrency = \<lparr>currency_name = ''Ether'', currency_symbol = ''ETH'', currency_decimals = 18\<rparr>,
         blockExplorer = Some ''https://sepolia.etherscan.io''\<rparr>),
     (''polygon'',
        \<lparr>config_name = ''Polygon Mainnet'', chainId = 137,
         rpcUrl = Url ''https://polygon.llamarpc.com'',
         nativeCurrency = \<lparr>currency_name = ''MATIC'', currency_symbol = ''MATIC'', currency_decimals = 18\<rparr>,
         blockExplorer = Some ''https://polygonscan.com''\<rparr>),
     (''datil'',
        \<lparr>config_name = ''Lit Datil Testnet'', chainId = 175188,
         rpcUrl = LIT_RPC_CHRONICLE_YELLOWSTONE,
         nativeCurrency = \<lparr>currency_name = ''LIT'', currency_symbol = ''LIT'', currency_decimals = 18\<rparr>,
         blockExplorer = None\<rparr>)]"

definition getSupportedChains :: "string list" where
  "getSupportedChains = map fst SUPPORTED_CHAINS"

text \<open>
  \<open>SUPPORTED_CHAINS[chain]\<close> is a JavaScript property read on an ordinary object: it
  finds the object's own properties first and then the members the object inherits from
  \<open>Object.prototype\<close>. The inherited members are functions, apart from the accessor
  \<open>__proto__\<close>, which yields \<open>Object.prototype\<close> itself. A function has a \<open>name\<close>
  (that of \<open>constructor\<close> is \<open>Object\<close>) and no \<open>chainId\<close>; \<open>Object.prototype\<close>
  has neither.
\<close>

datatype property_value =
    OwnProperty ChainConfig
  | PrototypeFunction string
  | PrototypeObject

definition object_prototype_functions :: "string list" where
  "object_prototype_functions =
    [''constructor'', ''__defineGetter__'', ''__defineSetter__'', ''hasOwnProperty'',
     ''__lookupGetter__'', ''__lookupSetter__'', ''isPrototypeOf'', ''propertyIsEnumerable'',
     ''toString'', ''valueOf'', ''toLocaleString'']"

definition property_read :: "string \<Rightarrow> property_value option" where
  "property_read chain =
    (case map_of SUPPORTED_CHAINS chain of
       Some config \<Rightarrow> Some (OwnProperty config)
     | None \<Rightarrow>
         if chain = ''constructor'' then Some (PrototypeFunction ''Object'')
         else if chain \<in> set object_prototype_functions then Some (PrototypeFunction chain)
         else if chain = ''__proto__'' then Some PrototypeObject
         else None)"

text \<open>\<open>getChainConfig\<close> throws when the value read is falsy, that is \<open>undefined\<close>.\<close>

definition getChainConfig :: "string \<Rightarrow> js_error + property_value" where
  "getChainConfig chain =
    (case property_read chain of
       None \<Rightarrow> Inl (UnsupportedChain chain getSupportedChains)
     | Some config \<Rightarrow> Inr config)"

text \<open>The members \<open>name\<close> and \<open>chainId\<close> of the value \<open>getChainConfig\<close> returned.\<close>

definition property_name :: "property_value \<Rightarrow> string option" where
  "property_name v =
    (case v of OwnProperty config \<Rightarrow> Some (config_name config)
     | PrototypeFunction f \<Rightarrow> Some f
     | PrototypeObject \<Rightarrow> None)"

definition property_chainId :: "property_value \<Rightarrow> int option" where
  "property_chainId v =
    (case v of OwnProperty config \<Rightarrow> Some (chainId config)
     | PrototypeFunction f \<Rightarrow> None
     | PrototypeObject \<Rightarrow> None)"

section \<open>The persisted store (lines 206-230)\<close>

text \<open>
  The data file is absent, or cannot be read or parsed, or holds the JSON text of an
  array of bindings (the declared type \<open>UserPKPData[]\<close>); \<open>JSON.parse\<close> of
  \<open>JSON.stringify\<close> returns the records it was given, since all their members are
  strings. Reading does not change the file, so two reads with no write between them see
  the same content. A write succeeds, or is refused and leaves the file as it was, or is
  cut short and leaves a text that no longer parses.
\<close>

datatype file_content = NoFile | Unreadable | Stored "UserPKPData list"

datatype write_fault = NoFault | WriteRefused | WriteTorn

definition loadUserPKPs :: "file_content \<Rightarrow> UserPKPData list" where
  "loadUserPKPs file =
    (case file of NoFile \<Rightarrow> [] | Unreadable \<Rightarrow> [] | Stored userPKPs \<Rightarrow> userPKPs)"

definition saveUserPKPs :: "write_fault \<Rightarrow> file_content \<Rightarrow> UserPKPData list \<Rightarrow> file_content" where
  "saveUserPKPs fault file userPKPs =
    (case fault of NoFault \<Rightarrow> Stored userPKPs | WriteRefused \<Rightarrow> file | WriteTorn \<Rightarrow> Unreadable)"

definition findUserPKP :: "file_content \<Rightarrow> string \<Rightarrow> UserPKPData option" where
  "findUserPKP file userId = find (\<lambda>item. user_id (user item) = userId) (loadUserPKPs file)"

section \<open>The outside world\<close>

text \<open>
  What the class hands to the Lit network, in order: the request for the latest block
  hash (the nonce of the SIWE message), the authenticated request to mint a key, and the
  payloads given to a wallet's signing operations.
\<close>

datatype auth_scope = SignAnything | PersonalSign

record PKPEthersWallet =
  pkpPubKey :: string
  session_chain :: string
  pkp_resource :: string

datatype gas_price = PriceString string | PriceBigNumber int

record TxRequest =
  req_to :: string
  req_data :: "string option"
  req_chainId :: "int option"
  req_gasLimit :: int
  req_gasPrice :: gas_price
  req_value :: string

datatype sign_payload =
    MessagePayload string
  | TypedDataPayload EIP712Domain EIP712Types json
  | TransactionPayload TxRequest

datatype net_request =
    GetLatestBlockhash
  | MintWithAuth string "auth_scope list"
  | WalletSign PKPEthersWallet sign_payload

text \<open>
  Everything the class does not own is a member of \<open>world\<close>: the answers of the Lit
  network (which may depend on all the requests sent before, so they take the log of
  requests), the fault of the file system at a write, the clock, the local library calls
  that build the SIWE authentication signature (\<open>createSiweMessageWithRecaps\<close> followed
  by \<open>generateAuthSig\<close>), the address recovery of ethers and the runtime's
  \<open>String.prototype.toLowerCase\<close>. An \<open>Inl\<close> answer is a thrown error.
\<close>

record world =
  getLatestBlockhash :: "net_request list \<Rightarrow> js_error + string"
  generateAuthSig :: "string \<Rightarrow> string \<Rightarrow> js_error + string"
  mintWithAuth :: "net_request list \<Rightarrow> string \<Rightarrow> auth_scope list \<Rightarrow> js_error + PKPData"
  wallet_sign :: "net_request list \<Rightarrow> PKPEthersWallet \<Rightarrow> sign_payload \<Rightarrow> js_error + string"
  writeFileSync_fault :: "net_request list \<Rightarrow> write_fault"
  toISOString_now :: "net_request list \<Rightarrow> string"
  toLowerCase :: "string \<Rightarrow> string"
  verifyMessage :: "string \<Rightarrow> string \<Rightarrow> js_error + string"
  verifyTypedData :: "EIP712Domain \<Rightarrow> EIP712Types \<Rightarrow> json \<Rightarrow> string \<Rightarrow> js_error + string"

section \<open>The wallet manager (lines 130-144)\<close>

text \<open>
  The members \<open>litClient\<close> and \<open>contractClient\<close> are null or set; \<open>masterWallet\<close> is
  null or a wallet with its address; all three are null until \<open>initialize\<close> sets
  them. \<open>dataFile\<close> stands for the content of the file at that path, and
  \<open>net_log\<close> lists the requests sent to the network so far.
\<close>

record PKPWalletManager =
  litClient :: bool
  contractClient :: bool
  masterWallet :: "string option"
  dataFile :: file_content
  net_log :: "net_request list"

section \<open>Wallet creation (lines 236-303)\<close>

text \<open>
  Lines 254-286 of \<open>createWallet\<close>: the nonce, the authentication signature and the
  mint. The result comes with the log of requests after it.
\<close>

definition requestMint :: "world \<Rightarrow> PKPWalletManager \<Rightarrow> string \<Rightarrow> (js_error + PKPData) \<times> net_request list" where
  "requestMint w s masterAddress =
    (let log1 = net_log s @ [GetLatestBlockhash] in
     case getLatestBlockhash w (net_log s) of
       Inl e \<Rightarrow> (Inl e, log1)
     | Inr nonce \<Rightarrow>
         (case generateAuthSig w masterAddress nonce of
            Inl e \<Rightarrow> (Inl e, log1)
          | Inr authSig \<Rightarrow>
              (mintWithAuth w log1 authSig [SignAnything, PersonalSign],
               log1 @ [MintWithAuth authSig [SignAnything, PersonalSign]])))"

definition createWallet :: "world \<Rightarrow> PKPWalletManager \<Rightarrow> UserData \<Rightarrow> (js_error + PKPData) \<times> PKPWalletManager" where
  "createWallet w s userData =
    (if \<not> litClient s \<or> \<not> contractClient s then (Inl NotInitialized, s)
     else case masterWallet s of
       None \<Rightarrow> (Inl NotInitialized, s)
     | Some masterAddress \<Rightarrow>
         (case findUserPKP (dataFile s) (user_id userData) of
            Some existing \<Rightarrow> (Inr (pkp existing), s)
          | None \<Rightarrow>
              (case requestMint w s masterAddress of
                 (Inl e, log2) \<Rightarrow> (Inl e, s\<lparr>net_log := log2\<rparr>)
               | (Inr minted, log2) \<Rightarrow>
                   (let userPKPs = loadUserPKPs (dataFile s);
                        newUserPKP = \<lparr>user = userData, pkp = minted, createdAt = toISOString_now w log2\<rparr>
                    in (Inr minted,
                        s\<lparr>net_log := log2,
                          dataFile := saveUserPKPs (writeFileSync_fault w log2) (dataFile s)
                                        (userPKPs @ [newUserPKP])\<rparr>)))))"

section \<open>Wallet instances and signing (lines 309-422)\<close>

text \<open>
  \<open>getWallet\<close> sends nothing: the wallet object asks the network only when it signs.
  The session's chain is \<open>chainConfig.name.toLowerCase()\<close>, which throws a
  \<open>TypeError\<close> when the value read from the table has no \<open>name\<close>.
\<close>

definition getWallet :: "world \<Rightarrow> PKPWalletManager \<Rightarrow> string \<Rightarrow> string option \<Rightarrow> js_error + PKPEthersWallet" where
  "getWallet w s userId chainArg =
    (let chain = default_param chainArg ''datil'' in
     if \<not> litClient s \<or> masterWallet s = None then Inl NotInitialized
     else case findUserPKP (dataFile s) userId of
       None \<Rightarrow> Inl (NoPKPFound userId)
     | Some userPKP \<Rightarrow>
         (case getChainConfig chain of
            Inl e \<Rightarrow> Inl e
          | Inr chainConfig \<Rightarrow>
              (case property_name chainConfig of
                 None \<Rightarrow> Inl TypeError
               | Some n \<Rightarrow>
                   Inr \<lparr>pkpPubKey = publicKey (pkp userPKP),
                        session_chain = toLowerCase w n,
                        pkp_resource = tokenId (pkp userPKP)\<rparr>)))"

text \<open>A signing operation of the wallet: one request to the network, and its answer.\<close>

definition walletSign :: "world \<Rightarrow> PKPWalletManager \<Rightarrow> PKPEthersWallet \<Rightarrow> sign_payload \<Rightarrow> (js_error + string) \<times> PKPWalletManager" where
  "walletSign w s wallet payload =
    (wallet_sign w (net_log s) wallet payload,
     s\<lparr>net_log := net_log s @ [WalletSign wallet payload]\<rparr>)"

definition signMessage :: "world \<Rightarrow> PKPWalletManager \<Rightarrow> string \<Rightarrow> string \<Rightarrow> SignMessageOptions \<Rightarrow> (js_error + string) \<times> PKPWalletManager" where
  "signMessage w s userId message options =
    (let chain = default_param (opt_chain options) ''datil'';
         messageType = default_param (opt_messageType options) Plain
     in case getWallet w s userId (Some chain) of
          Inl e \<Rightarrow> (Inl e, s)
        | Inr wallet \<Rightarrow>
            (case messageType of
               Plain \<Rightarrow> walletSign w s wallet (MessagePayload message)
             | Eip191 \<Rightarrow> walletSign w s wallet (MessagePayload message)
             | Eip712 \<Rightarrow> (Inl (UnsupportedMessageType (message_type_name messageType)), s)))"

definition signTypedData :: "world \<Rightarrow> PKPWalletManager \<Rightarrow> string \<Rightarrow> EIP712Domain \<Rightarrow> EIP712Types \<Rightarrow> json \<Rightarrow> string option \<Rightarrow> (js_error + string) \<times> PKPWalletManager" where
  "signTypedData w s userId domain types val chainArg =
    (let chain = default_param chainArg ''datil'' in
     case getWallet w s userId (Some chain) of
       Inl e \<Rightarrow> (Inl e, s)
     | Inr wallet \<Rightarrow> walletSign w s wallet (TypedDataPayload domain types val))"

text \<open>
  \<open>a || b\<close> is \<open>b\<close> when \<open>a\<close> is falsy: \<open>undefined\<close>, the number zero or the empty
  string (\<open>NaN\<close>, falsy as well, is not a number of the model).
  \<open>ethers.utils.parseUnits("20", "gwei")\<close> is the big number \<open>20 * 10^9\<close>.
\<close>

definition or_number :: "int option \<Rightarrow> int \<Rightarrow> int" where
  "or_number a b = (case a of None \<Rightarrow> b | Some n \<Rightarrow> if n = 0 then b else n)"

definition or_string :: "string option \<Rightarrow> 'a \<Rightarrow> (string \<Rightarrow> 'a) \<Rightarrow> 'a" where
  "or_string a b keep = (case a of None \<Rightarrow> b | Some str \<Rightarrow> if str = [] then b else keep str)"

definition parseUnits_20_gwei :: int where
  "parseUnits_20_gwei = 20 * 10 ^ 9"

definition signTransaction :: "world \<Rightarrow> PKPWalletManager \<Rightarrow> string \<Rightarrow> TransactionRequest \<Rightarrow> string option \<Rightarrow> (js_error + string) \<times> PKPWalletManager" where
  "signTransaction w s userId transaction chainArg =
    (let chain = default_param chainArg ''datil'' in
     case getWallet w s userId (Some chain) of
       Inl e \<Rightarrow> (Inl e, s)
     | Inr wallet \<Rightarrow>
         (case getChainConfig chain of
            Inl e \<Rightarrow> (Inl e, s)
          | Inr chainConfig \<Rightarrow>
              (let txRequest =
                 \<lparr>req_to = tx_to transaction,
                  req_data = tx_data transaction,
                  req_chainId = property_chainId chainConfig,
                  req_gasLimit = or_number (tx_gasLimit transaction) 21000,
                  req_gasPrice = or_string (tx_gasPrice transaction) (PriceBigNumber parseUnits_20_gwei) PriceString,
                  req_value = or_string (tx_value transaction) ''0'' (\<lambda>v. v)\<rparr>
               in walletSign w s wallet (TransactionPayload txRequest))))"

section \<open>Verification helpers (lines 492-523)\<close>

text \<open>The whole body stands in a \<open>try\<close> whose \<open>catch\<close> returns \<open>false\<close>.\<close>

definition verifySignature :: "world \<Rightarrow> string \<Rightarrow> string \<Rightarrow> string \<Rightarrow> bool" where
  "verifySignature w message signature expectedAddress =
    (case verifyMessage w message signature of
       Inl e \<Rightarrow> False
     | Inr recoveredAddress \<Rightarrow> toLowerCase w recoveredAddress = toLowerCase w expectedAddress)"

definition verifyTypedDataSignature :: "world \<Rightarrow> EIP712Domain \<Rightarrow> EIP712Types \<Rightarrow> json \<Rightarrow> string \<Rightarrow> string \<Rightarrow> bool" where
  "verifyTypedDataSignature w domain types val signature expectedAddress =
    (case verifyTypedData w domain types val signature of
       Inl e \<Rightarrow> False
     | Inr recoveredAddress \<Rightarrow> toLowerCase w recoveredAddress = toLowerCase w expectedAddress)"

section \<open>Sequences of operations\<close>

datatype operation =
    CreateWallet UserData
  | GetWallet string "string option"
  | SignMessage string string SignMessageOptions
  | SignTypedData string EIP712Domain EIP712Types json "string option"
  | SignTransaction string TransactionRequest "string option"

text \<open>The manager after one call; a call that throws leaves the manager it had reached.\<close>

definition perform :: "world \<Rightarrow> PKPWalletManager \<Rightarrow> operation \<Rightarrow> PKPWalletManager" where
  "perform w s operation =
    (case operation of
       CreateWallet userData \<Rightarrow> snd (createWallet w s userData)
     | GetWallet userId chainArg \<Rightarrow> s
     | SignMessage userId message options \<Rightarrow> snd (signMessage w s userId message options)
     | SignTypedData userId domain types val chainArg \<Rightarrow> snd (signTypedData w s userId domain types val chainArg)
     | SignTransaction userId transaction chainArg \<Rightarrow> snd (signTransaction w s userId transaction chainArg))"

fun run :: "world \<Rightarrow> PKPWalletManager \<Rightarrow> operation list \<Rightarrow> PKPWalletManager" where
  "run w s [] = s"
| "run w s (operation # rest) = run w (perform w s operation) rest"

definition unique_user_ids :: "file_content \<Rightarrow> bool" where
  "unique_user_ids file = distinct (map (\<lambda>item. user_id (user item)) (loadUserPKPs file))"

section \<open>A concrete world and concrete managers\<close>

text \<open>
  The users are those of the source's \<open>demo\<close>. In \<open>demo_world\<close> every request
  succeeds, the network mints a new key at every mint (numbered by the length of the
  log), every write succeeds and \<open>toLowerCase\<close> is that of ASCII. \<open>readonly_world\<close>
  differs in one thing: the file system refuses every write.
\<close>

definition ascii_lower :: "char \<Rightarrow> char" where
  "ascii_lower c =
    (case map_of (zip ''ABCDEFGHIJKLMNOPQRSTUVWXYZ'' ''abcdefghijklmnopqrstuvwxyz'') c of
       None \<Rightarrow> c
     | Some l \<Rightarrow> l)"

definition demo_mint :: "net_request list \<Rightarrow> PKPData" where
  "demo_mint log =
    \<lparr>tokenId = ''token-'' @ replicate (length log) CHR ''i'',
     publicKey = ''0x04'' @ replicate (length log) CHR ''i'',
     ethAddress = ''0xAbC'' @ replicate (length log) CHR ''i''\<rparr>"

definition demo_world :: world where
  "demo_world =
    \<lparr>getLatestBlockhash = (\<lambda>log. Inr ''0xb10c''),
     generateAuthSig = (\<lambda>address nonce. Inr (address @ '':'' @ nonce)),
     mintWithAuth = (\<lambda>log accessToken scopes. Inr (demo_mint log)),
     wallet_sign = (\<lambda>log wallet payload. Inr (''signed-by-'' @ pkpPubKey wallet)),
     writeFileSync_fault = (\<lambda>log. NoFault),
     toISOString_now = (\<lambda>log. ''2025-01-01T00:00:00.000Z''),
     toLowerCase = map ascii_lower,
     verifyMessage = (\<lambda>message signature. if signature = ''sig-'' @ message then Inr ''0xAbC1'' else Inl (Upstream ''invalid signature'')),
     verifyTypedData = (\<lambda>domain types val signature. if signature = ''sig-'' @ domain_name domain then Inr ''0xAbC1'' else Inl (Upstream ''invalid signature''))\<rparr>"

definition readonly_world :: world where
  "readonly_world = demo_world\<lparr>writeFileSync_fault := (\<lambda>log. WriteRefused)\<rparr>"

definition alice :: UserData where
  "alice = \<lparr>user_id = ''alice'', user_name = ''Alice'', user_email = ''alice@example.com''\<rparr>"

definition bob :: UserData where
  "bob = \<lparr>user_id = ''bob'', user_name = ''Bob'', user_email = ''bob@example.com''\<rparr>"

definition alice_pkp :: PKPData where
  "alice_pkp = \<lparr>tokenId = ''token-a'', publicKey = ''0x04a'', ethAddress = ''0xAbCa''\<rparr>"

definition alice_binding :: UserPKPData where
  "alice_binding = \<lparr>user = alice, pkp = alice_pkp, createdAt = ''2024-12-31T00:00:00.000Z''\<rparr>"

definition new_manager :: PKPWalletManager where
  "new_manager =
    \<lparr>litClient = False, contractClient = False, masterWallet = None,
     dataFile = NoFile, net_log = []\<rparr>"

definition empty_manager :: PKPWalletManager where
  "empty_manager =
    \<lparr>litClient = True, contractClient = True, masterWallet = Some ''0xMaster'',
     dataFile = NoFile, net_log = []\<rparr>"

definition alice_manager :: PKPWalletManager where
  "alice_manager = empty_manager\<lparr>dataFile := Stored [alice_binding]\<rparr>"

definition three_bindings :: "UserPKPData list" where
  "three_bindings =
    [\<lparr>user = bob, pkp = alice_pkp, createdAt = []\<rparr>, alice_binding,
     alice_binding\<lparr>createdAt := ''later''\<rparr>]"

definition transfer :: TransactionRequest where
  "transfer = \<lparr>tx_to = ''0x1234567890123456789012345678901234567890'', tx_value = Some ''1000'',
     tx_gasLimit = Some 0, tx_gasPrice = None, tx_data = None\<rparr>"

definition test_domain :: EIP712Domain where
  "test_domain = \<lparr>domain_name = ''PKP Test'', domain_version = ''1'', domain_chainId = 175188,
     verifyingContract = ''0x0000000000000000000000000000000000000000'', salt = None\<rparr>"

definition plain_options :: SignMessageOptions where
  "plain_options = \<lparr>opt_chain = None, opt_messageType = None\<rparr>"


definition first_log :: "net_request list" where
  "first_log = [GetLatestBlockhash, MintWithAuth ''0xMaster:0xb10c'' [SignAnything, PersonalSign]]"

definition alice_minted :: PKPWalletManager where
  "alice_minted = empty_manager
    \<lparr>net_log := first_log,
     dataFile := Stored [\<lparr>user = alice, pkp = demo_mint [GetLatestBlockhash],
       createdAt = ''2025-01-01T00:00:00.000Z''\<rparr>]\<rparr>"

definition alice_unsaved :: PKPWalletManager where
  "alice_unsaved = empty_manager\<lparr>net_log := first_log\<rparr>"

definition demo_operations :: "operation list" where
  "demo_operations =
    [CreateWallet alice, SignMessage ''alice'' ''hello'' plain_options, CreateWallet alice,
     CreateWallet bob]"

section \<open>Lemmas on the store\<close>

lemma loadUserPKPs_Stored: "loadUserPKPs (Stored userPKPs) = userPKPs"
  by (simp add: loadUserPKPs_def)

lemma findUserPKP_absent: "findUserPKP NoFile userId = None" "findUserPKP Unreadable userId = None"
  by (simp_all add: findUserPKP_def loadUserPKPs_def)

lemma findUserPKP_None_iff:
  "findUserPKP file userId = None \<longleftrightarrow> userId \<notin> set (map (\<lambda>item. user_id (user item)) (loadUserPKPs file))"
  by (auto simp: findUserPKP_def find_None_iff)

lemma find_append_new:
  "find P xs = None \<Longrightarrow> P x \<Longrightarrow> find P (xs @ [x]) = Some x"
  by (induction xs) (auto split: if_splits)

lemma findUserPKP_appended:
  assumes "findUserPKP file userId = None" and "user_id (user binding) = userId"
  shows "findUserPKP (Stored (loadUserPKPs file @ [binding])) userId = Some binding"
  using assms by (simp add: findUserPKP_def loadUserPKPs_Stored find_append_new)

lemma findUserPKP_saveUserPKPs_fault:
  assumes "findUserPKP file userId = None" and "fault \<noteq> NoFault"
  shows "findUserPKP (saveUserPKPs fault file userPKPs) userId = None"
  using assms by (cases fault) (simp_all add: saveUserPKPs_def findUserPKP_absent)

lemma unique_user_ids_saveUserPKPs:
  assumes "unique_user_ids file" and "findUserPKP file (user_id (user binding)) = None"
  shows "unique_user_ids (saveUserPKPs fault file (loadUserPKPs file @ [binding]))"
proof (cases fault)
  case NoFault
  have "user_id (user binding) \<notin> (\<lambda>item. user_id (user item)) ` set (loadUserPKPs file)"
    using assms(2) by (simp add: findUserPKP_None_iff)
  then show ?thesis
    using assms(1) NoFault by (simp add: unique_user_ids_def saveUserPKPs_def loadUserPKPs_Stored)
next
  case WriteRefused
  then show ?thesis using assms(1) by (simp add: saveUserPKPs_def)
next
  case WriteTorn
  then show ?thesis by (simp add: saveUserPKPs_def unique_user_ids_def loadUserPKPs_def)
qed

section \<open>Chain registry\<close>

lemma getChainConfig_own:
  "map_of SUPPORTED_CHAINS chain = Some config \<Longrightarrow> getChainConfig chain = Inr (OwnProperty config)"
  by (simp add: getChainConfig_def property_read_def)

text \<open>
  For each registered name the chain id returned is that of the table, and a name that
  is neither registered nor a member of \<open>Object.prototype\<close> is refused.
\<close>

lemma getChainConfig_registered:
  "map (\<lambda>chain. map_sum id property_chainId (getChainConfig chain)) getSupportedChains =
     [Inr (Some 1), Inr (Some 11155111), Inr (Some 137), Inr (Some 175188)]"
  by (simp add: getChainConfig_def property_read_def getSupportedChains_def SUPPORTED_CHAINS_def
      property_chainId_def)

lemma getChainConfig_registered_chainId:
  assumes "map_of SUPPORTED_CHAINS chain = Some config"
  shows "getChainConfig chain = Inr (OwnProperty config)"
    and "property_chainId (OwnProperty config) = Some (chainId config)"
  using assms by (simp_all add: getChainConfig_own property_chainId_def)

lemma getChainConfig_unregistered:
  assumes "chain \<notin> set getSupportedChains"
    and "chain \<notin> set object_prototype_functions" and "chain \<noteq> ''__proto__''"
  shows "getChainConfig chain = Inl (UnsupportedChain chain getSupportedChains)"
proof -
  have "map_of SUPPORTED_CHAINS chain = None"
    using assms(1) by (simp add: getSupportedChains_def map_of_eq_None_iff)
  moreover have "chain \<noteq> ''constructor''"
    using assms(2) by (auto simp: object_prototype_functions_def)
  ultimately show ?thesis
    using assms(2,3) by (simp add: getChainConfig_def property_read_def)
qed

text \<open>
  C4. The claim: \<open>getChainConfig\<close> fails with the unsupported-chain error for every
  chain name absent from the static table. The code at the name \<open>constructor\<close>, which
  is not a key of the table: the property read finds the function inherited from
  \<open>Object.prototype\<close>, the value is truthy, and \<open>getChainConfig\<close> returns it
  instead of throwing.
\<close>

theorem getChainConfig_inherited_member:
  "getChainConfig ''constructor'' = Inr (PrototypeFunction ''Object'')
   \<and> ''constructor'' \<notin> set getSupportedChains"
  by (simp add: getChainConfig_def property_read_def getSupportedChains_def SUPPORTED_CHAINS_def)

section \<open>Registry lookup\<close>

text \<open>
  C7. For every stored sequence of bindings and every queried user id, \<open>findUserPKP\<close>
  returns a binding exactly when it is the first one of the sequence whose user id
  equals the queried id character for character, and returns nothing exactly when no
  binding of the sequence has that id; with no data file, or one that cannot be read or
  parsed, it returns nothing.
\<close>

theorem findUserPKP_first_match:
  "(findUserPKP (Stored bindings) userId = Some b \<longleftrightarrow>
      (\<exists>before after. bindings = before @ b # after \<and> user_id (user b) = userId \<and>
         (\<forall>x \<in> set before. user_id (user x) \<noteq> userId)))
   \<and> (findUserPKP (Stored bindings) userId = None \<longleftrightarrow>
      (\<forall>x \<in> set bindings. user_id (user x) \<noteq> userId))
   \<and> findUserPKP NoFile userId = None
   \<and> findUserPKP Unreadable userId = None"
proof (intro conjI)
  let ?P = "\<lambda>item. user_id (user item) = userId"
  show "findUserPKP (Stored bindings) userId = Some b \<longleftrightarrow>
      (\<exists>before after. bindings = before @ b # after \<and> user_id (user b) = userId \<and>
         (\<forall>x \<in> set before. user_id (user x) \<noteq> userId))"
  proof
    assume "findUserPKP (Stored bindings) userId = Some b"
    then have "find ?P bindings = Some b"
      by (simp add: findUserPKP_def loadUserPKPs_def)
    then obtain i where i: "i < length bindings" "?P (bindings ! i)" "b = bindings ! i"
      "\<forall>j<i. \<not> ?P (bindings ! j)"
      unfolding find_Some_iff by blast
    have "bindings = take i bindings @ b # drop (Suc i) bindings"
      using i(1,3) by (simp add: id_take_nth_drop)
    moreover have "\<forall>x \<in> set (take i bindings). user_id (user x) \<noteq> userId"
    proof
      fix x assume "x \<in> set (take i bindings)"
      then obtain j where "j < i" "x = bindings ! j"
        using i(1) by (auto simp: in_set_conv_nth)
      then show "user_id (user x) \<noteq> userId" using i(4) by blast
    qed
    ultimately show "\<exists>before after. bindings = before @ b # after \<and> user_id (user b) = userId \<and>
         (\<forall>x \<in> set before. user_id (user x) \<noteq> userId)"
      using i(2,3) by blast
  next
    assume "\<exists>before after. bindings = before @ b # after \<and> user_id (user b) = userId \<and>
         (\<forall>x \<in> set before. user_id (user x) \<noteq> userId)"
    then obtain before after where s: "bindings = before @ b # after" "?P b"
      "\<forall>x \<in> set before. \<not> ?P x" by blast
    have "find ?P (before @ b # after) = Some b"
      using s(2,3) by (induction before) auto
    then show "findUserPKP (Stored bindings) userId = Some b"
      by (simp add: findUserPKP_def loadUserPKPs_def s(1))
  qed
  show "findUserPKP (Stored bindings) userId = None \<longleftrightarrow>
      (\<forall>x \<in> set bindings. user_id (user x) \<noteq> userId)"
    by (auto simp: findUserPKP_def loadUserPKPs_def find_None_iff)
  show "findUserPKP NoFile userId = None" and "findUserPKP Unreadable userId = None"
    by (simp_all add: findUserPKP_absent)
qed

text \<open>
  A store with Bob's binding and two bindings of \<open>alice\<close>: the lookup of \<open>alice\<close>
  returns the earlier of the two, and the lookup of \<open>Alice\<close> finds nothing.
\<close>

theorem findUserPKP_first_match_witness:
  "findUserPKP (Stored three_bindings) ''alice'' = Some alice_binding
   \<and> findUserPKP (Stored three_bindings) ''Alice'' = None"
proof
  have "three_bindings = [\<lparr>user = bob, pkp = alice_pkp, createdAt = []\<rparr>] @ alice_binding #
      [alice_binding\<lparr>createdAt := ''later''\<rparr>]
    \<and> user_id (user alice_binding) = ''alice''
    \<and> (\<forall>x \<in> set [\<lparr>user = bob, pkp = alice_pkp, createdAt = []\<rparr>]. user_id (user x) \<noteq> ''alice'')"
    by (simp add: three_bindings_def alice_binding_def alice_def bob_def)
  then show "findUserPKP (Stored three_bindings) ''alice'' = Some alice_binding"
    using findUserPKP_first_match [of three_bindings "''alice''" alice_binding] by blast
  have "\<forall>x \<in> set three_bindings. user_id (user x) \<noteq> ''Alice''"
    by (simp add: three_bindings_def alice_binding_def alice_def bob_def)
  then show "findUserPKP (Stored three_bindings) ''Alice'' = None"
    using findUserPKP_first_match [of three_bindings "''Alice''" alice_binding] by blast
qed

section \<open>Wallet creation\<close>

lemma createWallet_existing:
  assumes "litClient s" and "contractClient s" and "masterWallet s = Some masterAddress"
    and "findUserPKP (dataFile s) (user_id userData) = Some existing"
  shows "createWallet w s userData = (Inr (pkp existing), s)"
  using assms by (simp add: createWallet_def)

lemma createWallet_mint:
  assumes "litClient s" and "contractClient s" and "masterWallet s = Some masterAddress"
    and "findUserPKP (dataFile s) (user_id userData) = None"
    and "requestMint w s masterAddress = (Inr minted, log2)"
  shows "createWallet w s userData =
    (Inr minted,
     s\<lparr>net_log := log2,
       dataFile := saveUserPKPs (writeFileSync_fault w log2) (dataFile s)
         (loadUserPKPs (dataFile s) @
            [\<lparr>user = userData, pkp = minted, createdAt = toISOString_now w log2\<rparr>])\<rparr>)"
  using assms by (simp add: createWallet_def Let_def)

lemma createWallet_success_cases:
  assumes "createWallet w s userData = (Inr key, s')"
  obtains (existing) masterAddress existing where
      "litClient s" "contractClient s" "masterWallet s = Some masterAddress"
      "findUserPKP (dataFile s) (user_id userData) = Some existing"
      "key = pkp existing" "s' = s"
  | (minted) masterAddress log2 where
      "litClient s" "contractClient s" "masterWallet s = Some masterAddress"
      "findUserPKP (dataFile s) (user_id userData) = None"
      "requestMint w s masterAddress = (Inr key, log2)"
      "s' = s\<lparr>net_log := log2,
         dataFile := saveUserPKPs (writeFileSync_fault w log2) (dataFile s)
           (loadUserPKPs (dataFile s) @
              [\<lparr>user = userData, pkp = key, createdAt = toISOString_now w log2\<rparr>])\<rparr>"
  using assms
  by (auto simp: createWallet_def Let_def split: if_splits option.splits sum.splits prod.splits)

lemma createWallet_stores_binding:
  assumes "createWallet w s userData = (Inr key, s')"
    and "\<And>log. writeFileSync_fault w log = NoFault"
  shows "\<exists>binding. findUserPKP (dataFile s') (user_id userData) = Some binding \<and> pkp binding = key"
  using assms(1)
proof (cases rule: createWallet_success_cases)
  case (existing masterAddress existing)
  then show ?thesis by simp
next
  case (minted masterAddress log2)
  then show ?thesis
    by (simp add: assms(2) saveUserPKPs_def findUserPKP_appended)
qed

lemma requestMint_demo:
  "requestMint demo_world empty_manager ''0xMaster'' = (Inr (demo_mint [GetLatestBlockhash]), first_log)"
  by (simp add: requestMint_def demo_world_def empty_manager_def first_log_def)

lemma requestMint_readonly:
  "requestMint readonly_world empty_manager ''0xMaster'' = (Inr (demo_mint [GetLatestBlockhash]), first_log)"
  by (simp add: requestMint_def readonly_world_def demo_world_def empty_manager_def first_log_def)

lemma createWallet_demo_alice:
  "createWallet demo_world empty_manager alice = (Inr (demo_mint [GetLatestBlockhash]), alice_minted)"
proof -
  have 1: "litClient empty_manager" "contractClient empty_manager"
    "masterWallet empty_manager = Some ''0xMaster''"
    by (simp_all add: empty_manager_def)
  have 2: "findUserPKP (dataFile empty_manager) (user_id alice) = None"
    by (simp add: empty_manager_def findUserPKP_absent)
  show ?thesis
    unfolding createWallet_mint [OF 1 2 requestMint_demo]
    by (simp add: alice_minted_def empty_manager_def demo_world_def saveUserPKPs_def loadUserPKPs_def)
qed

text \<open>
  C1, as amended. If \<open>createWallet\<close> returns a key for a user and the store holds a
  binding for that user afterwards (one was stored before, or the write of the new one
  succeeded), then a second call returns the same key and leaves the manager as it was:
  the key comes from the stored binding and no request is sent.
\<close>

theorem createWallet_idempotent:
  assumes "createWallet w s userData = (Inr key, s')"
    and "findUserPKP (dataFile s') (user_id userData) \<noteq> None"
  shows "createWallet w s' userData = (Inr key, s')"
  using assms(1)
proof (cases rule: createWallet_success_cases)
  case (existing masterAddress existing)
  then show ?thesis using assms(1) by simp
next
  case (minted masterAddress log2)
  let ?new = "\<lparr>user = userData, pkp = key, createdAt = toISOString_now w log2\<rparr>"
  have "writeFileSync_fault w log2 = NoFault"
  proof (rule ccontr)
    assume "writeFileSync_fault w log2 \<noteq> NoFault"
    then have "findUserPKP (dataFile s') (user_id userData) = None"
      using minted(4) by (simp add: minted(6) findUserPKP_saveUserPKPs_fault)
    then show False using assms(2) by simp
  qed
  then have "dataFile s' = Stored (loadUserPKPs (dataFile s) @ [?new])"
    by (simp add: minted(6) saveUserPKPs_def)
  then have "findUserPKP (dataFile s') (user_id userData) = Some ?new"
    using minted(4) by (simp add: findUserPKP_appended)
  moreover have "litClient s'" "contractClient s'" "masterWallet s' = Some masterAddress"
    using minted(1-3) by (simp_all add: minted(6))
  ultimately have "createWallet w s' userData = (Inr (pkp ?new), s')"
    by (rule createWallet_existing [rotated 3])
  then show ?thesis by simp
qed

theorem createWallet_idempotent_witness:
  "createWallet demo_world empty_manager alice = (Inr (demo_mint [GetLatestBlockhash]), alice_minted)
   \<and> findUserPKP (dataFile alice_minted) (user_id alice) \<noteq> None
   \<and> createWallet demo_world alice_minted alice = (Inr (demo_mint [GetLatestBlockhash]), alice_minted)"
proof -
  have "findUserPKP (dataFile alice_minted) (user_id alice) \<noteq> None"
    by (simp add: alice_minted_def findUserPKP_def loadUserPKPs_def alice_def)
  then show ?thesis
    using createWallet_idempotent [OF createWallet_demo_alice] createWallet_demo_alice by simp
qed

text \<open>
  The claim as written covers every successful first call. Where the file system
  refuses the write, the first call still returns its key, the store stays empty, and
  the second call mints again and returns another key.
\<close>

theorem createWallet_unsaved_counterexample:
  "createWallet readonly_world empty_manager alice = (Inr (demo_mint [GetLatestBlockhash]), alice_unsaved)
   \<and> fst (createWallet readonly_world alice_unsaved alice) = Inr (demo_mint (first_log @ [GetLatestBlockhash]))
   \<and> net_log (snd (createWallet readonly_world alice_unsaved alice)) =
        first_log @ [GetLatestBlockhash, MintWithAuth ''0xMaster:0xb10c'' [SignAnything, PersonalSign]]
   \<and> demo_mint (first_log @ [GetLatestBlockhash]) \<noteq> demo_mint [GetLatestBlockhash]"
  by (simp add: createWallet_def requestMint_def readonly_world_def demo_world_def
      empty_manager_def alice_unsaved_def first_log_def findUserPKP_def loadUserPKPs_def
      saveUserPKPs_def demo_mint_def alice_def)

text \<open>
  C6. For a user with no stored binding: when the mint inside \<open>createWallet\<close>
  succeeds and the write of the data file fails, \<open>createWallet\<close> returns the minted
  key, and the store holds no binding for the user afterwards.
\<close>

theorem createWallet_no_rollback:
  assumes "litClient s" and "contractClient s" and "masterWallet s = Some masterAddress"
    and "findUserPKP (dataFile s) (user_id userData) = None"
    and "requestMint w s masterAddress = (Inr minted, log2)"
    and "writeFileSync_fault w log2 \<noteq> NoFault"
  shows "fst (createWallet w s userData) = Inr minted
    \<and> findUserPKP (dataFile (snd (createWallet w s userData))) (user_id userData) = None"
  using assms(4,6) by (simp add: createWallet_mint [OF assms(1-5)] findUserPKP_saveUserPKPs_fault)

theorem createWallet_no_rollback_witness:
  "fst (createWallet readonly_world empty_manager alice) = Inr (demo_mint [GetLatestBlockhash])
   \<and> findUserPKP (dataFile (snd (createWallet readonly_world empty_manager alice))) ''alice'' = None
   \<and> writeFileSync_fault readonly_world first_log = WriteRefused"
proof -
  have 1: "litClient empty_manager" "contractClient empty_manager"
    "masterWallet empty_manager = Some ''0xMaster''"
    by (simp_all add: empty_manager_def)
  have 2: "findUserPKP (dataFile empty_manager) (user_id alice) = None"
    by (simp add: empty_manager_def findUserPKP_absent)
  have 3: "writeFileSync_fault readonly_world first_log = WriteRefused"
    by (simp add: readonly_world_def)
  then have 4: "writeFileSync_fault readonly_world first_log \<noteq> NoFault"
    by simp
  have "user_id alice = ''alice''"
    by (simp add: alice_def)
  then show ?thesis
    using createWallet_no_rollback [OF 1 2 requestMint_readonly 4] 3 by simp
qed

section \<open>Signing\<close>

lemma walletSign_dataFile: "dataFile (snd (walletSign w s wallet payload)) = dataFile s"
  by (simp add: walletSign_def)

lemma signMessage_dataFile: "dataFile (snd (signMessage w s userId message options)) = dataFile s"
  by (simp add: signMessage_def Let_def walletSign_dataFile split: sum.splits message_type.splits)

lemma signTypedData_dataFile:
  "dataFile (snd (signTypedData w s userId domain types val chainArg)) = dataFile s"
  by (simp add: signTypedData_def Let_def walletSign_dataFile split: sum.splits)

lemma signTransaction_dataFile:
  "dataFile (snd (signTransaction w s userId transaction chainArg)) = dataFile s"
  by (simp add: signTransaction_def Let_def walletSign_dataFile split: sum.splits)

text \<open>
  C8. For every user id, payload and chain name, \<open>signMessage\<close>, \<open>signTypedData\<close>
  and \<open>signTransaction\<close> leave the content of the data file as it was, whether they
  return a signature or throw.
\<close>

theorem signing_leaves_store_unchanged:
  "dataFile (snd (signMessage w s userId message options)) = dataFile s
   \<and> dataFile (snd (signTypedData w s userId domain types val chainArg)) = dataFile s
   \<and> dataFile (snd (signTransaction w s userId transaction chainArg)) = dataFile s"
  by (simp add: signMessage_dataFile signTypedData_dataFile signTransaction_dataFile)

theorem signing_leaves_store_unchanged_witness:
  "fst (signMessage demo_world alice_manager ''alice'' ''hello'' plain_options) = Inr ''signed-by-0x04a''
   \<and> dataFile (snd (signMessage demo_world alice_manager ''alice'' ''hello'' plain_options)) = Stored [alice_binding]
   \<and> dataFile (snd (signTypedData demo_world alice_manager ''alice'' test_domain [] JNull (Some ''polygon''))) = Stored [alice_binding]
   \<and> dataFile (snd (signTransaction demo_world alice_manager ''alice'' transfer (Some ''polygon''))) = Stored [alice_binding]"
proof -
  have "dataFile alice_manager = Stored [alice_binding]"
    by (simp add: alice_manager_def empty_manager_def)
  moreover have "fst (signMessage demo_world alice_manager ''alice'' ''hello'' plain_options) = Inr ''signed-by-0x04a''"
    by (simp add: signMessage_def getWallet_def default_param_def plain_options_def
        alice_manager_def empty_manager_def findUserPKP_def loadUserPKPs_def alice_binding_def
        alice_def alice_pkp_def getChainConfig_def property_read_def SUPPORTED_CHAINS_def
        property_name_def walletSign_def demo_world_def)
  ultimately show ?thesis
    using signing_leaves_store_unchanged [of demo_world alice_manager "''alice''" "''hello''"
        plain_options test_domain "[]" JNull "Some ''polygon''" transfer]
    by simp
qed

text \<open>
  C3, as amended. For every user id with no stored binding, \<open>getWallet\<close>,
  \<open>signMessage\<close>, \<open>signTypedData\<close> and \<open>signTransaction\<close> throw and leave the
  manager, and with it the log of requests sent to the network, as it was. The error is
  the not-found error when \<open>litClient\<close> and \<open>masterWallet\<close> are set, and the
  not-initialized error otherwise, since that check comes first.
\<close>

theorem unknown_user_fails_before_network:
  assumes "findUserPKP (dataFile s) userId = None"
  shows "getWallet w s userId chainArg =
           Inl (if litClient s \<and> masterWallet s \<noteq> None then NoPKPFound userId else NotInitialized)
   \<and> signMessage w s userId message options =
           (Inl (if litClient s \<and> masterWallet s \<noteq> None then NoPKPFound userId else NotInitialized), s)
   \<and> signTypedData w s userId domain types val chainArg =
           (Inl (if litClient s \<and> masterWallet s \<noteq> None then NoPKPFound userId else NotInitialized), s)
   \<and> signTransaction w s userId transaction chainArg =
           (Inl (if litClient s \<and> masterWallet s \<noteq> None then NoPKPFound userId else NotInitialized), s)"
proof -
  have g: "getWallet w s userId c =
      Inl (if litClient s \<and> masterWallet s \<noteq> None then NoPKPFound userId else NotInitialized)" for c
    using assms by (simp add: getWallet_def Let_def)
  show ?thesis
    by (simp add: g signMessage_def signTypedData_def signTransaction_def Let_def)
qed

theorem unknown_user_fails_before_network_witness:
  "findUserPKP (dataFile empty_manager) ''bob'' = None
   \<and> getWallet demo_world empty_manager ''bob'' None = Inl (NoPKPFound ''bob'')
   \<and> signMessage demo_world empty_manager ''bob'' ''hello'' plain_options = (Inl (NoPKPFound ''bob''), empty_manager)
   \<and> signTypedData demo_world empty_manager ''bob'' test_domain [] JNull None = (Inl (NoPKPFound ''bob''), empty_manager)
   \<and> signTransaction demo_world empty_manager ''bob'' transfer None = (Inl (NoPKPFound ''bob''), empty_manager)
   \<and> net_log empty_manager = []"
proof -
  have h: "findUserPKP (dataFile empty_manager) ''bob'' = None"
    by (simp add: empty_manager_def findUserPKP_def loadUserPKPs_def)
  have i: "litClient empty_manager \<and> masterWallet empty_manager \<noteq> None" "net_log empty_manager = []"
    by (simp_all add: empty_manager_def)
  show ?thesis
    using h i unknown_user_fails_before_network [OF h, of demo_world None "''hello''" plain_options
        test_domain "[]" JNull transfer]
    by simp
qed

text \<open>
  The claim as written promises the not-found error for every manager; on a manager
  that was never initialized the error is the not-initialized one.
\<close>

theorem unknown_user_not_initialized_counterexample:
  "findUserPKP (dataFile new_manager) ''bob'' = None
   \<and> getWallet demo_world new_manager ''bob'' None = Inl NotInitialized
   \<and> signMessage demo_world new_manager ''bob'' ''hello'' plain_options = (Inl NotInitialized, new_manager)
   \<and> NotInitialized \<noteq> NoPKPFound ''bob''"
  by (simp add: new_manager_def findUserPKP_def loadUserPKPs_def getWallet_def signMessage_def
      plain_options_def default_param_def)







section \<open>Verification\<close>

text \<open>
  C5. \<open>verifySignature\<close> and \<open>verifyTypedDataSignature\<close> return a boolean for every
  input: true exactly when the recovery of the signer's address succeeds and the
  recovered address and the expected one are equal after \<open>toLowerCase\<close>, hence false
  whenever the recovery throws.
\<close>

theorem verification_helpers_total:
  "verifySignature w message signature expectedAddress =
     (\<exists>recovered. verifyMessage w message signature = Inr recovered
        \<and> toLowerCase w recovered = toLowerCase w expectedAddress)
   \<and> verifyTypedDataSignature w domain types val signature expectedAddress =
     (\<exists>recovered. verifyTypedData w domain types val signature = Inr recovered
        \<and> toLowerCase w recovered = toLowerCase w expectedAddress)"
  by (auto simp: verifySignature_def verifyTypedDataSignature_def split: sum.splits)

theorem verification_helpers_total_witness:
  "verifySignature demo_world ''PKP Test'' ''sig-PKP Test'' ''0xABC1''
   \<and> verifyTypedDataSignature demo_world test_domain [] JNull ''sig-PKP Test'' ''0xABC1''
   \<and> \<not> verifySignature demo_world ''PKP Test'' ''sig-PKP Test'' ''0xABC2''
   \<and> \<not> verifySignature demo_world ''PKP Test'' ''garbage'' ''0xABC1''"
proof -
  have m: "verifyMessage demo_world ''PKP Test'' ''sig-PKP Test'' = Inr ''0xAbC1''"
    "verifyMessage demo_world ''PKP Test'' ''garbage'' = Inl (Upstream ''invalid signature'')"
    "verifyTypedData demo_world test_domain [] JNull ''sig-PKP Test'' = Inr ''0xAbC1''"
    by (simp_all add: demo_world_def test_domain_def)
  have l: "toLowerCase demo_world ''0xAbC1'' = ''0xabc1''"
    "toLowerCase demo_world ''0xABC1'' = ''0xabc1''"
    "toLowerCase demo_world ''0xABC2'' = ''0xabc2''"
    by (simp_all add: demo_world_def ascii_lower_def)
  show ?thesis
    using verification_helpers_total [of demo_world "''PKP Test''" "''sig-PKP Test''" "''0xABC1''"
        test_domain "[]" JNull]
      verification_helpers_total [of demo_world "''PKP Test''" "''sig-PKP Test''" "''0xABC2''"
        test_domain "[]" JNull]
      verification_helpers_total [of demo_world "''PKP Test''" "''garbage''" "''0xABC1''"
        test_domain "[]" JNull]
    by (simp add: m l)
qed

section \<open>The uniqueness invariant\<close>

lemma createWallet_unique_user_ids:
  assumes "unique_user_ids (dataFile s)"
  shows "unique_user_ids (dataFile (snd (createWallet w s userData)))"
proof (cases "createWallet w s userData")
  case (Pair result s')
  show ?thesis
  proof (cases result)
    case (Inl e)
    then have "dataFile s' = dataFile s"
      using Pair
      by (auto simp: createWallet_def Let_def split: if_splits option.splits sum.splits prod.splits)
    then show ?thesis using assms Pair by simp
  next
    case (Inr key)
    with Pair have "createWallet w s userData = (Inr key, s')" by simp
    then show ?thesis
    proof (cases rule: createWallet_success_cases)
      case (existing masterAddress existing)
      then show ?thesis using assms Pair by simp
    next
      case (minted masterAddress log2)
      then show ?thesis
        using assms Pair by (simp add: unique_user_ids_saveUserPKPs)
    qed
  qed
qed

lemma perform_unique_user_ids:
  assumes "unique_user_ids (dataFile s)"
  shows "unique_user_ids (dataFile (perform w s operation))"
  using assms
  by (cases operation)
    (simp_all add: perform_def createWallet_unique_user_ids signMessage_dataFile
      signTypedData_dataFile signTransaction_dataFile)

text \<open>
  C2. From a store in which no two bindings share a user id, every sequence of
  \<open>createWallet\<close>, \<open>getWallet\<close> and signing calls, run one after the other, ends in
  a store in which no two bindings share a user id.
\<close>

theorem run_keeps_user_ids_unique:
  assumes "unique_user_ids (dataFile s)"
  shows "unique_user_ids (dataFile (run w s operations))"
  using assms
proof (induction operations arbitrary: s)
  case Nil
  then show ?case by simp
next
  case (Cons operation rest)
  from Cons.prems have "unique_user_ids (dataFile (perform w s operation))"
    by (rule perform_unique_user_ids)
  then show ?case by (simp add: Cons.IH)
qed

lemma run_demo_operations:
  "map (\<lambda>item. user_id (user item)) (loadUserPKPs (dataFile (run demo_world empty_manager demo_operations))) =
     [''alice'', ''bob'']"
  by (simp add: demo_operations_def perform_def createWallet_def requestMint_def signMessage_def
      getWallet_def walletSign_def getChainConfig_def property_read_def property_name_def
      SUPPORTED_CHAINS_def default_param_def plain_options_def demo_world_def empty_manager_def
      findUserPKP_def loadUserPKPs_def saveUserPKPs_def alice_def bob_def)

theorem run_keeps_user_ids_unique_witness:
  "unique_user_ids (dataFile empty_manager)
   \<and> unique_user_ids (dataFile (run demo_world empty_manager demo_operations))
   \<and> map (\<lambda>item. user_id (user item))
        (loadUserPKPs (dataFile (run demo_world empty_manager demo_operations))) = [''alice'', ''bob'']"
proof -
  have h: "unique_user_ids (dataFile empty_manager)"
    by (simp add: unique_user_ids_def empty_manager_def loadUserPKPs_def)
  show ?thesis
    using h run_keeps_user_ids_unique [OF h, of demo_world demo_operations] run_demo_operations
    by simp
qed

end
